theory Spec2Isabelle
  imports Complex_Main "HOL-Library.Word"
begin

section \<open>Values of the Python program\<close>

text \<open>
  The calculation engine (\<^verbatim>\<open>app/models/calculation.py\<close>) and the boundary schema
  (\<^verbatim>\<open>app/schemas/calculation.py\<close>) compute on Python numbers. Numbers are modelled by
  exact rationals: the tests \<open>== 0\<close> and the order of the arithmetic operations are those of
  the source; the rounding of IEEE doubles, infinities and NaN are outside the model.
  Type tags are ASCII strings. A value that reaches \<^verbatim>\<open>inputs\<close> or \<^verbatim>\<open>type\<close> is a list of
  numbers, a string, a single number or \<^verbatim>\<open>None\<close>.
\<close>

type_synonym number = rat
type_synonym uuid = "128 word"
type_synonym datetime = int

datatype py_value = PyNone | PyStr string | PyNum number | PyList "number list"

text \<open>The exceptions the engine can raise, with their message.\<close>

datatype error = ValueError string | NotImplementedError string | ZeroDivisionError



abbreviation UnsupportedType :: "string \<Rightarrow> error" where
  "UnsupportedType calculation_type \<equiv>
     ValueError (''Unsupported calculation type: '' @ calculation_type)"

subsection \<open>Built-in operations\<close>

text \<open>\<^verbatim>\<open>str.lower()\<close> on an ASCII string: \<open>A\<close>..\<open>Z\<close> (65..90) move up by 32.\<close>

definition lower_char :: "char \<Rightarrow> char" where
  "lower_char c =
     (let n = (of_char c :: nat) in if 65 \<le> n \<and> n \<le> 90 then char_of (n + 32) else c)"

definition lower :: "string \<Rightarrow> string" where
  "lower s = map lower_char s"

text \<open>\<^verbatim>\<open>sum(xs)\<close> adds from the left, starting at 0.\<close>

definition py_sum :: "number list \<Rightarrow> number" where
  "py_sum xs = foldl (+) 0 xs"

text \<open>\<^verbatim>\<open>a / b\<close> raises \<^verbatim>\<open>ZeroDivisionError\<close> when \<open>b\<close> is zero.\<close>

definition truediv :: "number \<Rightarrow> number \<Rightarrow> error + number" where
  "truediv a b = (if b = 0 then Inl ZeroDivisionError else Inr (a / b))"

section \<open>The calculation engine\<close>

text \<open>
  The mapped classes. \<open>Calculation\<close> is the base class, the other four are its subclasses;
  each has its polymorphic identity, which the constructor stores in the column \<^verbatim>\<open>type\<close>.
\<close>

datatype calculation_class = Calculation | Addition | Subtraction | Multiplication | Division

fun polymorphic_identity :: "calculation_class \<Rightarrow> string" where
  "polymorphic_identity Calculation = ''calculation''"
| "polymorphic_identity Addition = ''addition''"
| "polymorphic_identity Subtraction = ''subtraction''"
| "polymorphic_identity Multiplication = ''multiplication''"
| "polymorphic_identity Division = ''division''"

text \<open>
  An instance: its class and the columns of \<^verbatim>\<open>AbstractCalculation\<close>. The columns \<^verbatim>\<open>id\<close>,
  \<^verbatim>\<open>created_at\<close> and \<^verbatim>\<open>updated_at\<close> get their defaults when the row is written, and
  \<^verbatim>\<open>result\<close> is nullable, so all four can be \<^verbatim>\<open>None\<close> on an instance.
\<close>

record calculation =
  cls :: calculation_class
  id' :: "uuid option"
  user_id :: uuid
  type :: string
  inputs :: py_value
  result :: "number option"
  created_at :: "datetime option"
  updated_at :: "datetime option"

text \<open>The constructor call \<^verbatim>\<open>calculation_class(user_id=user_id, inputs=inputs)\<close>.\<close>

definition new_instance :: "calculation_class \<Rightarrow> uuid \<Rightarrow> py_value \<Rightarrow> calculation" where
  "new_instance calculation_class uid inps =
     \<lparr> cls = calculation_class, id' = None, user_id = uid,
       type = polymorphic_identity calculation_class, inputs = inps, result = None,
       created_at = None, updated_at = None \<rparr>"

subsection \<open>The result computations\<close>

text \<open>Each method reads \<^verbatim>\<open>self.inputs\<close> only, which is the argument here.\<close>

fun Addition_get_result :: "py_value \<Rightarrow> error + number" where
  "Addition_get_result (PyList xs) =
     (if length xs < 2 then Inl (ValueError ''Inputs must be a list with at least two numbers.'')
      else Inr (py_sum xs))"
| "Addition_get_result _ = Inl (ValueError ''Inputs must be a list with at least two numbers.'')"

text \<open>The loop \<^verbatim>\<open>for value in self.inputs[1:]: result -= value\<close>.\<close>

fun sub_loop :: "number \<Rightarrow> number list \<Rightarrow> number" where
  "sub_loop r [] = r"
| "sub_loop r (v # vs) = sub_loop (r - v) vs"

fun Subtraction_get_result :: "py_value \<Rightarrow> error + number" where
  "Subtraction_get_result (PyList xs) =
     (if length xs < 2 then Inl (ValueError ''Inputs must be a list with at least two numbers.'')
      else Inr (sub_loop (xs ! 0) (drop 1 xs)))"
| "Subtraction_get_result _ = Inl (ValueError ''Inputs must be a list with at least two numbers.'')"

text \<open>The loop \<^verbatim>\<open>for value in self.inputs: result *= value\<close>.\<close>

fun mul_loop :: "number \<Rightarrow> number list \<Rightarrow> number" where
  "mul_loop r [] = r"
| "mul_loop r (v # vs) = mul_loop (r * v) vs"

fun Multiplication_get_result :: "py_value \<Rightarrow> error + number" where
  "Multiplication_get_result (PyList xs) =
     (if length xs < 2 then Inl (ValueError ''Inputs must be a list with at least two numbers.'')
      else Inr (mul_loop 1 xs))"
| "Multiplication_get_result _ =
     Inl (ValueError ''Inputs must be a list with at least two numbers.'')"

text \<open>
  The loop of \<^verbatim>\<open>Division.get_result\<close>: the test \<^verbatim>\<open>value == 0\<close>, then \<^verbatim>\<open>result /= value\<close>,
  whose own exception would leave the loop too.
\<close>

fun div_loop :: "number \<Rightarrow> number list \<Rightarrow> error + number" where
  "div_loop r [] = Inr r"
| "div_loop r (v # vs) =
     (if v = 0 then Inl (ValueError ''Cannot divide by zero.'')
      else (case truediv r v of Inl e \<Rightarrow> Inl e | Inr r' \<Rightarrow> div_loop r' vs))"

fun Division_get_result :: "py_value \<Rightarrow> error + number" where
  "Division_get_result (PyList xs) =
     (if length xs < 2 then Inl (ValueError ''Inputs must be a list with at least two numbers.'')
      else div_loop (xs ! 0) (drop 1 xs))"
| "Division_get_result _ = Inl (ValueError ''Inputs must be a list with at least two numbers.'')"

text \<open>Method dispatch on the class of the instance; the base class has no implementation.\<close>

fun class_get_result :: "calculation_class \<Rightarrow> py_value \<Rightarrow> error + number" where
  "class_get_result Calculation inps =
     Inl (NotImplementedError ''Subclasses must implement get_result() method'')"
| "class_get_result Addition inps = Addition_get_result inps"
| "class_get_result Subtraction inps = Subtraction_get_result inps"
| "class_get_result Multiplication inps = Multiplication_get_result inps"
| "class_get_result Division inps = Division_get_result inps"

definition get_result :: "calculation \<Rightarrow> error + number" where
  "get_result self = class_get_result (cls self) (inputs self)"

subsection \<open>The factory\<close>

definition calculation_classes :: "string \<rightharpoonup> calculation_class" where
  "calculation_classes =
     map_of [(''addition'', Addition), (''subtraction'', Subtraction),
             (''multiplication'', Multiplication), (''division'', Division)]"

definition create :: "string \<Rightarrow> uuid \<Rightarrow> py_value \<Rightarrow> error + calculation" where
  "create calculation_type uid inps =
     (case calculation_classes (lower calculation_type) of
        None \<Rightarrow> Inl (ValueError (''Unsupported calculation type: '' @ calculation_type))
      | Some calculation_class \<Rightarrow>
          (let instance = new_instance calculation_class uid inps
           in case get_result instance of
                Inl e \<Rightarrow> Inl e
              | Inr r \<Rightarrow> Inr (instance\<lparr>result := Some r\<rparr>)))"

section \<open>The boundary schema\<close>

datatype CalculationType = ADDITION | SUBTRACTION | MULTIPLICATION | DIVISION

fun CalculationType_value :: "CalculationType \<Rightarrow> string" where
  "CalculationType_value ADDITION = ''addition''"
| "CalculationType_value SUBTRACTION = ''subtraction''"
| "CalculationType_value MULTIPLICATION = ''multiplication''"
| "CalculationType_value DIVISION = ''division''"

definition CalculationType_members :: "CalculationType list" where
  "CalculationType_members = [ADDITION, SUBTRACTION, MULTIPLICATION, DIVISION]"

text \<open>The conversion of a string to the member of the enumeration with that value.\<close>

definition CalculationType_of :: "string \<Rightarrow> CalculationType option" where
  "CalculationType_of s = find (\<lambda>e. CalculationType_value e = s) CalculationType_members"

text \<open>
  What one entry of a \<^verbatim>\<open>ValidationError\<close> says: a \<^verbatim>\<open>ValueError\<close> raised by a validator of
  the schema, with its message, or a failed check of the declared field type.
\<close>

datatype error_type = value_error string | too_short | list_type | enum | uuid_type
  | datetime_type | float_type

type_synonym error_details = "string \<times> error_type"

text \<open>
  The field validators; \<open>Inl m\<close> is \<^verbatim>\<open>raise ValueError(m)\<close>. The message of \<open>validate_type\<close>
  joins the sorted allowed values.
\<close>

definition allowed :: "string set" where
  "allowed = set (map CalculationType_value CalculationType_members)"

fun validate_type :: "py_value \<Rightarrow> string + string" where
  "validate_type (PyStr v) =
     (if lower v \<notin> allowed
      then Inl ''Type must be one of: addition, division, multiplication, subtraction''
      else Inr (lower v))"
| "validate_type _ = Inl ''Type must be a string''"

fun check_inputs_is_list :: "py_value \<Rightarrow> string + py_value" where
  "check_inputs_is_list (PyList xs) = Inr (PyList xs)"
| "check_inputs_is_list _ = Inl ''Input should be a valid list''"

text \<open>
  A field: its \<^verbatim>\<open>mode="before"\<close> validator, then the declared type (\<^verbatim>\<open>CalculationType\<close>;
  \<^verbatim>\<open>List[float]\<close> with \<^verbatim>\<open>min_length=2\<close>).
\<close>

definition type_field :: "py_value \<Rightarrow> error_details list + CalculationType" where
  "type_field v =
     (case validate_type v of
        Inl m \<Rightarrow> Inl [(''type'', value_error m)]
      | Inr s \<Rightarrow> (case CalculationType_of s of
                   None \<Rightarrow> Inl [(''type'', enum)]
                 | Some t \<Rightarrow> Inr t))"

definition inputs_field :: "py_value \<Rightarrow> error_details list + number list" where
  "inputs_field v =
     (case check_inputs_is_list v of
        Inl m \<Rightarrow> Inl [(''inputs'', value_error m)]
      | Inr (PyList xs) \<Rightarrow> if length xs < 2 then Inl [(''inputs'', too_short)] else Inr xs
      | Inr _ \<Rightarrow> Inl [(''inputs'', list_type)])"

record CalculationBase =
  type :: CalculationType
  inputs :: "number list"

text \<open>The \<^verbatim>\<open>mode='after'\<close> validator of the model.\<close>

definition validate_inputs :: "'a CalculationBase_scheme \<Rightarrow> string + 'a CalculationBase_scheme"
  where
  "validate_inputs self =
     (if length (CalculationBase.inputs self) < 2
      then Inl ''At least two numbers are required for calculation''
      else if CalculationBase.type self = DIVISION
              \<and> (\<exists>x \<in> set (drop 1 (CalculationBase.inputs self)). x = 0)
      then Inl ''Cannot divide by zero''
      else Inr self)"

text \<open>The errors of a field, none when it validated.\<close>

fun errors :: "'e list + 'a \<Rightarrow> 'e list" where
  "errors (Inl es) = es"
| "errors (Inr _) = []"

fun required :: "string \<Rightarrow> error_type \<Rightarrow> 'a option \<Rightarrow> error_details list" where
  "required loc t None = [(loc, t)]"
| "required loc t (Some _) = []"

text \<open>
  \<^verbatim>\<open>CalculationBase(type=t, inputs=i)\<close>: every field is validated and the errors are
  collected; the model validator runs when no field failed.
\<close>

definition CalculationBase_validate ::
  "py_value \<Rightarrow> py_value \<Rightarrow> error_details list + CalculationBase" where
  "CalculationBase_validate t i =
     (case (type_field t, inputs_field i) of
        (Inr ty, Inr xs) \<Rightarrow>
          (case validate_inputs \<lparr> type = ty, inputs = xs \<rparr> of
             Inl m \<Rightarrow> Inl [('''', value_error m)]
           | Inr m \<Rightarrow> Inr m)
      | (ft, fi) \<Rightarrow> Inl (errors ft @ errors fi))"

text \<open>
  The read model, \<^verbatim>\<open>CalculationRead(CalculationBase)\<close>, built from the attributes of an
  instance (\<^verbatim>\<open>from_attributes=True\<close>).
\<close>

record CalculationRead = CalculationBase +
  id' :: uuid
  user_id :: uuid
  created_at :: datetime
  updated_at :: datetime
  result :: number


section \<open>Facts about the built-in operations\<close>

lemma lower_char_idem: "lower_char (lower_char c) = lower_char c"
  by (simp add: lower_char_def Let_def)

lemma lower_idem: "lower (lower s) = lower s"
  by (simp add: lower_def lower_char_idem)





lemma lower_addition: "lower ''addition'' = ''addition''" by code_simp
lemma lower_subtraction: "lower ''subtraction'' = ''subtraction''" by code_simp
lemma lower_multiplication: "lower ''multiplication'' = ''multiplication''" by code_simp
lemma lower_division: "lower ''division'' = ''division''" by code_simp
lemma lower_modulus: "lower ''modulus'' = ''modulus''" by code_simp
lemma lower_ADDITION: "lower ''ADDITION'' = ''addition''" by code_simp

lemmas lower_tags = lower_addition lower_subtraction lower_multiplication lower_division

lemma calculation_classes_None_iff:
  "calculation_classes s = None \<longleftrightarrow>
     s \<notin> {''addition'', ''subtraction'', ''multiplication'', ''division''}"
  by (simp add: calculation_classes_def)

lemma calculation_classes_SomeD:
  "calculation_classes s = Some k \<Longrightarrow>
     (s = ''addition'' \<and> k = Addition) \<or> (s = ''subtraction'' \<and> k = Subtraction) \<or>
     (s = ''multiplication'' \<and> k = Multiplication) \<or> (s = ''division'' \<and> k = Division)"
  by (auto simp: calculation_classes_def split: if_splits)

lemma allowed_eq: "allowed = {''addition'', ''subtraction'', ''multiplication'', ''division''}"
  by (auto simp: allowed_def CalculationType_members_def)







lemma new_instance_sel:
  "cls (new_instance k owner inps) = k"
  "calculation.inputs (new_instance k owner inps) = inps"
  "calculation.result (new_instance k owner inps) = None"
  "calculation.type (new_instance k owner inps) = polymorphic_identity k"
  "calculation.user_id (new_instance k owner inps) = owner"
  by (simp_all add: new_instance_def)

lemma create_known:
  "calculation_classes (lower t) = Some k \<Longrightarrow>
   create t owner inps =
     (case class_get_result k inps of Inl e \<Rightarrow> Inl e
      | Inr r \<Rightarrow> Inr ((new_instance k owner inps)\<lparr>calculation.result := Some r\<rparr>))"
  by (simp add: create_def get_result_def new_instance_sel Let_def)

lemma classes_simps:
  "calculation_classes ''addition'' = Some Addition"
  "calculation_classes ''subtraction'' = Some Subtraction"
  "calculation_classes ''multiplication'' = Some Multiplication"
  "calculation_classes ''division'' = Some Division"
  by (simp_all add: calculation_classes_def)

section \<open>The claims\<close>

text \<open>
  C1. Whenever \<open>create\<close> returns an instance, its stored \<open>result\<close> is present and is the
  value that the result computation of its class gives on its stored \<open>inputs\<close>, which are the
  inputs passed in: the result is assigned before the instance is returned.
\<close>

theorem create_result_stored:
  "create t owner inps = Inr c \<Longrightarrow>
     \<exists>r. calculation.result c = Some r \<and> get_result c = Inr r
        \<and> class_get_result (cls c) (calculation.inputs c) = Inr r
        \<and> calculation.inputs c = inps"
  by (auto simp: create_def get_result_def new_instance_def Let_def split: option.splits sum.splits)

theorem create_result_stored_witness:
  "create ''addition'' 7 (PyList [1, 2, 3]) = Inr ((new_instance Addition 7 (PyList [1, 2, 3]))\<lparr>calculation.result := Some 6\<rparr>)
   \<and> (\<exists>r. calculation.result ((new_instance Addition 7 (PyList [1, 2, 3]))\<lparr>calculation.result := Some 6\<rparr>) = Some r
        \<and> get_result ((new_instance Addition 7 (PyList [1, 2, 3]))\<lparr>calculation.result := Some 6\<rparr>) = Inr r)"
proof -
  have h: "create ''addition'' 7 (PyList [1, 2, 3]) = Inr ((new_instance Addition 7 (PyList [1, 2, 3]))\<lparr>calculation.result := Some 6\<rparr>)"
    by (simp add: create_known [of _ Addition] lower_tags classes_simps py_sum_def)
  from create_result_stored [OF h] h show ?thesis by blast
qed






text \<open>
  C3. When the lower-cased tag is none of the four known tags, \<open>create\<close> fails with the
  unsupported-type error, whose message ends with the tag as it was passed, whatever the
  inputs. An instance is returned only for a known tag, with the class the table gives for
  it, and the classes of the instances that \<open>create\<close> can return are exactly the four
  subclasses. The tag \<open>modulus\<close> is rejected by name.
\<close>
theorem unsupported_type:
  "(lower t \<notin> {''addition'', ''subtraction'', ''multiplication'', ''division''}
      \<longrightarrow> create t owner inps = Inl (UnsupportedType t))
   \<and> (\<forall>c. create t owner inps = Inr c \<longrightarrow>
         lower t \<in> {''addition'', ''subtraction'', ''multiplication'', ''division''}
         \<and> calculation_classes (lower t) = Some (cls c))
   \<and> {cls c | t' o' i' c. create t' o' i' = Inr c}
       = {Addition, Subtraction, Multiplication, Division}
   \<and> create ''modulus'' owner (PyList [10, 3]) =
       Inl (ValueError ''Unsupported calculation type: modulus'')"
proof -
  have f1: "lower t \<notin> {''addition'', ''subtraction'', ''multiplication'', ''division''}
      \<longrightarrow> create t owner inps = Inl (UnsupportedType t)"
    using calculation_classes_None_iff [of "lower t"] by (auto simp: create_def)
  have f2: "calculation_classes (lower t') = Some (cls c)" if "create t' o' i' = Inr c" for t' o' i' c
    using that
    by (auto simp: create_def Let_def new_instance_sel split: option.splits sum.splits)
  have m2: "lower t' \<in> {''addition'', ''subtraction'', ''multiplication'', ''division''}"
    if "create t' o' i' = Inr c" for t' o' i' c
    using f2 [OF that] calculation_classes_None_iff [of "lower t'"] by auto
  have f3: "cls c \<in> {Addition, Subtraction, Multiplication, Division}"
    if "create t' o' i' = Inr c" for t' o' i' c
    using calculation_classes_SomeD [OF f2 [OF that]] by auto
  have f4: "\<exists>c. create (polymorphic_identity k) 0 (PyList [1, 1]) = Inr c \<and> cls c = k"
    if "k \<in> {Addition, Subtraction, Multiplication, Division}" for k
    using that
    by (auto simp: create_known [of _ Addition] create_known [of _ Subtraction]
        create_known [of _ Multiplication] create_known [of _ Division]
        lower_tags classes_simps new_instance_sel py_sum_def truediv_def)
  have f5: "{cls c | t' o' i' c. create t' o' i' = Inr c}
       = {Addition, Subtraction, Multiplication, Division}" (is "?L = ?R")
  proof
    show "?L \<subseteq> ?R" using f3 by blast
    show "?R \<subseteq> ?L"
    proof
      fix k assume "k \<in> ?R"
      from f4 [OF this] show "k \<in> ?L" by blast
    qed
  qed
  have f6: "create ''modulus'' owner (PyList [10, 3]) =
       Inl (ValueError ''Unsupported calculation type: modulus'')"
    by (simp add: create_def lower_modulus calculation_classes_def)
  from f1 f2 m2 f5 f6 show ?thesis by blast
qed

theorem unsupported_type_witness:
  "lower ''Modulo'' \<notin> {''addition'', ''subtraction'', ''multiplication'', ''division''}
   \<and> create ''Modulo'' 3 PyNone = Inl (ValueError ''Unsupported calculation type: Modulo'')"
proof -
  have l: "lower ''Modulo'' = ''modulo''" by code_simp
  have h: "lower ''Modulo'' \<notin> {''addition'', ''subtraction'', ''multiplication'', ''division''}"
    by (simp add: l)
  from unsupported_type [of "''Modulo''" 3 PyNone] h show ?thesis by simp
qed





lemma inputs_field_list: "2 \<le> length xs \<Longrightarrow> inputs_field (PyList xs) = Inr xs"
  by (simp add: inputs_field_def)




lemma CalculationType_of_simps:
  "CalculationType_of ''addition'' = Some ADDITION"
  "CalculationType_of ''subtraction'' = Some SUBTRACTION"
  "CalculationType_of ''multiplication'' = Some MULTIPLICATION"
  "CalculationType_of ''division'' = Some DIVISION"
  by (simp_all add: CalculationType_of_def CalculationType_members_def)


lemma type_field_lower: "type_field (PyStr (lower t)) = type_field (PyStr t)"
  by (simp add: type_field_def lower_idem)





text \<open>
  C8. A tag whose lower-cased form is one of the four known tags behaves as that lower-cased
  form in both layers: \<open>create\<close> returns the same outcome, and the schema normalises the tag
  to the same value and validates the request to the same outcome. \<open>ADDITION\<close> and
  \<open>addition\<close> are one example.
\<close>
theorem tag_case_insensitive:
  "lower t \<in> {''addition'', ''subtraction'', ''multiplication'', ''division''} \<Longrightarrow>
     create t owner inps = create (lower t) owner inps
   \<and> validate_type (PyStr t) = Inr (lower t)
   \<and> validate_type (PyStr (lower t)) = Inr (lower t)
   \<and> type_field (PyStr t) = type_field (PyStr (lower t))
   \<and> CalculationBase_validate (PyStr t) i = CalculationBase_validate (PyStr (lower t)) i
   \<and> create ''ADDITION'' owner inps = create ''addition'' owner inps
   \<and> type_field (PyStr ''ADDITION'') = Inr ADDITION
   \<and> type_field (PyStr ''addition'') = Inr ADDITION"
proof -
  assume h: "lower t \<in> {''addition'', ''subtraction'', ''multiplication'', ''division''}"
  then obtain k where k: "calculation_classes (lower t) = Some k"
    using calculation_classes_None_iff [of "lower t"] by auto
  then have k': "calculation_classes (lower (lower t)) = Some k" by (simp add: lower_idem)
  have a: "create t owner inps = create (lower t) owner inps"
    by (simp add: create_known [OF k] create_known [OF k'])
  have b: "validate_type (PyStr t) = Inr (lower t)" "validate_type (PyStr (lower t)) = Inr (lower t)"
    using h by (simp_all add: allowed_eq lower_idem)
  have c: "CalculationBase_validate (PyStr t) i = CalculationBase_validate (PyStr (lower t)) i"
    by (simp add: CalculationBase_validate_def type_field_lower)
  have d: "create ''ADDITION'' owner inps = create ''addition'' owner inps"
    by (simp add: create_known [of _ Addition] lower_ADDITION lower_addition classes_simps)
  have e: "type_field (PyStr ''ADDITION'') = Inr ADDITION" "type_field (PyStr ''addition'') = Inr ADDITION"
    by (simp_all add: type_field_def lower_ADDITION lower_addition allowed_eq CalculationType_of_simps)
  from a b c d e show ?thesis by (simp add: type_field_lower)
qed

theorem tag_case_insensitive_witness:
  "lower ''DiViSion'' = ''division''
   \<and> create ''DiViSion'' 4 (PyList [100, 2, 5]) = create ''division'' 4 (PyList [100, 2, 5])
   \<and> create ''division'' 4 (PyList [100, 2, 5])
       = Inr ((new_instance Division 4 (PyList [100, 2, 5]))\<lparr>calculation.result := Some 10\<rparr>)
   \<and> validate_type (PyStr ''DiViSion'') = Inr ''division''"
proof -
  have l: "lower ''DiViSion'' = ''division''" by code_simp
  have h: "lower ''DiViSion'' \<in> {''addition'', ''subtraction'', ''multiplication'', ''division''}"
    by (simp add: l)
  have c: "create ''division'' 4 (PyList [100, 2, 5])
       = Inr ((new_instance Division 4 (PyList [100, 2, 5]))\<lparr>calculation.result := Some 10\<rparr>)"
    by (simp add: create_known [of _ Division] lower_division classes_simps truediv_def)
  from tag_case_insensitive [OF h, of 4 "PyList [100, 2, 5]" PyNone] l c show ?thesis by simp
qed









end
